theory Spec2Isabelle
  imports Main "HOL-Library.Word" "HOL-Library.Multiset"
begin

section \<open>Values handed over by the standard library\<close>

text \<open>
  The error normalizer \<^verbatim>\<open>parseErrorResponse\<close> (errors.go) never looks at the bytes of a
  response body itself: it passes them twice to \<^verbatim>\<open>json.Unmarshal\<close>, which first checks
  that the bytes are one JSON text and stores nothing when they are not. A body is
  therefore represented by the JSON value the library reads from it, and by \<open>None\<close>
  when the bytes are not one JSON text (the empty body included). Object members are kept
  in the order of the text, duplicates included. A number keeps its literal, since the
  two decodes convert it differently (\<^verbatim>\<open>strconv.ParseInt\<close> for the \<^verbatim>\<open>int16\<close> field,
  \<^verbatim>\<open>float64\<close> for the generic map).
\<close>

datatype json =
    JNull
  | JBool bool
  | JNumber string
  | JString string
  | JArray "json list"
  | JObject "(string \<times> json) list"

type_synonym payload = "json option"

subsection \<open>Decimal integers: \<^verbatim>\<open>strconv.Itoa\<close>, \<^verbatim>\<open>%d\<close> and \<^verbatim>\<open>strconv.ParseInt\<close>\<close>

definition digit_char :: "nat \<Rightarrow> char" where
  "digit_char d = ''0123456789'' ! d"

fun digits :: "nat \<Rightarrow> string" where
  "digits n = (if n < 10 then [digit_char n] else digits (n div 10) @ [digit_char (n mod 10)])"

declare digits.simps [simp del]

definition itoa :: "int \<Rightarrow> string" where
  "itoa i = (if i < 0 then CHR ''-'' # digits (nat (- i)) else digits (nat i))"

definition digit_val :: "char \<Rightarrow> nat option" where
  "digit_val c =
     map_of [(CHR ''0'', 0), (CHR ''1'', 1), (CHR ''2'', 2), (CHR ''3'', 3), (CHR ''4'', 4),
             (CHR ''5'', 5), (CHR ''6'', 6), (CHR ''7'', 7), (CHR ''8'', 8), (CHR ''9'', 9)] c"

fun parse_digits :: "nat \<Rightarrow> string \<Rightarrow> nat option" where
  "parse_digits acc [] = Some acc"
| "parse_digits acc (c # cs) =
     (case digit_val c of None \<Rightarrow> None | Some d \<Rightarrow> parse_digits (10 * acc + d) cs)"

text \<open>
  \<^verbatim>\<open>strconv.ParseInt(s, 10, 64)\<close>: an optional sign, then at least one decimal digit and
  nothing else; a value outside the 64-bit range is an error.
\<close>

definition ParseInt :: "string \<Rightarrow> int option" where
  "ParseInt s =
     (let neg = (take 1 s = ''-'');
          ds = (if take 1 s = ''-'' \<or> take 1 s = ''+'' then drop 1 s else s)
      in if ds = [] then None
         else (case parse_digits 0 ds of
                 None \<Rightarrow> None
               | Some n \<Rightarrow>
                   (let v = (if neg then - int n else int n)
                    in if - (2 ^ 63) \<le> v \<and> v < 2 ^ 63 then Some v else None)))"

subsection \<open>The generic decode: \<^verbatim>\<open>map[string]any\<close>\<close>

text \<open>
  The values \<^verbatim>\<open>json.Unmarshal\<close> stores in an \<^verbatim>\<open>any\<close>: \<^verbatim>\<open>nil\<close>, \<^verbatim>\<open>bool\<close>,
  \<^verbatim>\<open>float64\<close> (kept as the literal it was converted from), \<^verbatim>\<open>string\<close>, \<^verbatim>\<open>[]any\<close> and
  \<^verbatim>\<open>map[string]any\<close>. A map is a list of entries with distinct keys; the order of the
  list carries no meaning. A literal outside the range of \<^verbatim>\<open>float64\<close> is stored as
  \<^verbatim>\<open>nil\<close>; it stays an \<open>AFloat\<close> here, since the loop treats both alike (the default
  case of its switch) and the text of such a literal is left to the rendering parameter.
\<close>

datatype any =
    ANil
  | ABool bool
  | AFloat string
  | AString string
  | ASlice "any list"
  | AMap "(string \<times> any) list"

text \<open>\<^verbatim>\<open>m[k] = v\<close>: a key that is already there gets the new value.\<close>

fun store :: "string \<Rightarrow> 'v \<Rightarrow> (string \<times> 'v) list \<Rightarrow> (string \<times> 'v) list" where
  "store k v [] = [(k, v)]"
| "store k v (e # m) = (if fst e = k then (k, v) # m else e # store k v m)"

definition object_entries :: "(string \<times> 'v) list \<Rightarrow> (string \<times> 'v) list" where
  "object_entries kvs = foldl (\<lambda>m kv. store (fst kv) (snd kv) m) [] kvs"

fun decode_any :: "json \<Rightarrow> any" where
  "decode_any JNull = ANil"
| "decode_any (JBool b) = ABool b"
| "decode_any (JNumber lit) = AFloat lit"
| "decode_any (JString s) = AString s"
| "decode_any (JArray xs) = ASlice (map decode_any xs)"
| "decode_any (JObject kvs) = AMap (object_entries (map (map_prod id decode_any) kvs))"

text \<open>
  \<^verbatim>\<open>raw := map[string]any{}; _ = json.Unmarshal(respBody, &raw)\<close>: an object fills the
  map, \<^verbatim>\<open>null\<close> makes it the nil map, and for every other body the decode fails and the
  map stays empty. The error is discarded.
\<close>

definition Unmarshal_raw :: "payload \<Rightarrow> (string \<times> any) list" where
  "Unmarshal_raw respBody =
     (case respBody of
        Some (JObject kvs) \<Rightarrow> object_entries (map (map_prod id decode_any) kvs)
      | _ \<Rightarrow> [])"

subsection \<open>Generic text rendering: \<^verbatim>\<open>fmt.Sprintf("%v", v)\<close>\<close>

text \<open>
  A \<^verbatim>\<open>float64\<close> is printed in the shortest \<^verbatim>\<open>%g\<close> form. For a literal that is a plain
  integer of at most six digits that form is the literal itself (the value is exact and
  its exponent is below the threshold of the exponent form). The rendering of every other
  literal is floating-point formatting and is left to the parameter \<open>fmtG\<close>.
\<close>

definition is_digit :: "char \<Rightarrow> bool" where
  "is_digit c = (digit_val c \<noteq> None)"

definition plain_integer :: "string \<Rightarrow> bool" where
  "plain_integer lit =
     (let ds = (if take 1 lit = ''-'' then drop 1 lit else lit)
      in ds \<noteq> [] \<and> list_all is_digit ds \<and> (take 1 ds \<noteq> ''0'' \<or> ds = ''0'') \<and> length ds \<le> 6)"

definition fmt_float :: "(string \<Rightarrow> string) \<Rightarrow> string \<Rightarrow> string" where
  "fmt_float fmtG lit = (if plain_integer lit then lit else fmtG lit)"

fun intercalate :: "string \<Rightarrow> string list \<Rightarrow> string" where
  "intercalate sep [] = []"
| "intercalate sep [x] = x"
| "intercalate sep (x # y # ys) = x @ sep @ intercalate sep (y # ys)"

text \<open>\<^verbatim>\<open>fmt\<close> prints the keys of a map in increasing order; strings compare bytewise.\<close>

fun str_less :: "string \<Rightarrow> string \<Rightarrow> bool" where
  "str_less [] [] = False"
| "str_less [] (y # ys) = True"
| "str_less (x # xs) [] = False"
| "str_less (x # xs) (y # ys) =
     ((of_char x :: nat) < of_char y \<or> (x = y \<and> str_less xs ys))"

fun insert_entry :: "string \<times> 'v \<Rightarrow> (string \<times> 'v) list \<Rightarrow> (string \<times> 'v) list" where
  "insert_entry e [] = [e]"
| "insert_entry e (x # xs) = (if str_less (fst x) (fst e) then x # insert_entry e xs else e # x # xs)"

definition sort_entries :: "(string \<times> 'v) list \<Rightarrow> (string \<times> 'v) list" where
  "sort_entries es = foldr insert_entry es []"

fun fmt_v :: "(string \<Rightarrow> string) \<Rightarrow> any \<Rightarrow> string" where
  "fmt_v fmtG ANil = ''<nil>''"
| "fmt_v fmtG (ABool b) = (if b then ''true'' else ''false'')"
| "fmt_v fmtG (AFloat lit) = fmt_float fmtG lit"
| "fmt_v fmtG (AString s) = s"
| "fmt_v fmtG (ASlice xs) = ''['' @ intercalate '' '' (map (fmt_v fmtG) xs) @ '']''"
| "fmt_v fmtG (AMap es) =
     ''map['' @ intercalate '' ''
        (map (\<lambda>e. fst e @ '':'' @ snd e) (sort_entries (map (map_prod id (fmt_v fmtG)) es))) @ '']''"


section \<open>The documented envelope: \<^verbatim>\<open>types.ErrorResponse\<close>\<close>

text \<open>
  \<^verbatim>\<open>ErrorResponse\<close> embeds \<^verbatim>\<open>BaseResponse\<close> (\<^verbatim>\<open>message\<close>, \<^verbatim>\<open>success\<close>, \<^verbatim>\<open>result\<close>) and
  adds \<^verbatim>\<open>Code int16\<close>. The \<^verbatim>\<open>result\<close> field is a \<^verbatim>\<open>json.RawMessage\<close> that
  \<^verbatim>\<open>parseErrorResponse\<close> never reads; it is left out.
\<close>

record ErrorResponse =
  base_Message :: string
  base_Success :: bool
  base_Code :: "16 word"

definition zero_ErrorResponse :: ErrorResponse where
  "zero_ErrorResponse = \<lparr>base_Message = [], base_Success = False, base_Code = 0\<rparr>"

text \<open>
  \<^verbatim>\<open>encoding/json\<close> matches an object key to a struct field by the exact name of its tag
  or, failing that, without regard to case: ASCII letters fold to upper case, and the two
  code points whose case folding is an ASCII letter (U+017F, U+212A, here in UTF-8) fold
  to \<^verbatim>\<open>S\<close> and \<^verbatim>\<open>K\<close>.
\<close>

definition upper :: "char \<Rightarrow> char" where
  "upper c =
     (case map_of (zip ''abcdefghijklmnopqrstuvwxyz'' ''ABCDEFGHIJKLMNOPQRSTUVWXYZ'') c of
        Some u \<Rightarrow> u
      | None \<Rightarrow> c)"

fun foldName :: "string \<Rightarrow> string" where
  "foldName [] = []"
| "foldName (c # cs) =
     (if take 2 (c # cs) = [CHR 0xC5, CHR 0xBF] then CHR ''S'' # foldName (drop 1 cs)
      else if take 3 (c # cs) = [CHR 0xE2, CHR 0x84, CHR 0xAA] then CHR ''K'' # foldName (drop 2 cs)
      else upper c # foldName cs)"

text \<open>
  One member of the object stored into the struct. A value of the wrong type, or a number
  that is not an integer literal within \<^verbatim>\<open>int16\<close>, leaves the field as it is (the decode
  records an error and goes on); so does \<^verbatim>\<open>null\<close>.
\<close>

definition set_field :: "ErrorResponse \<Rightarrow> string \<times> json \<Rightarrow> ErrorResponse" where
  "set_field base kv =
     (if foldName (fst kv) = ''MESSAGE'' then
        (case snd kv of JString s \<Rightarrow> base\<lparr>base_Message := s\<rparr> | _ \<Rightarrow> base)
      else if foldName (fst kv) = ''SUCCESS'' then
        (case snd kv of JBool b \<Rightarrow> base\<lparr>base_Success := b\<rparr> | _ \<Rightarrow> base)
      else if foldName (fst kv) = ''CODE'' then
        (case snd kv of
           JNumber lit \<Rightarrow>
             (case ParseInt lit of
                None \<Rightarrow> base
              | Some n \<Rightarrow>
                  if - (2 ^ 15) \<le> n \<and> n < 2 ^ 15 then base\<lparr>base_Code := word_of_int n\<rparr> else base)
         | _ \<Rightarrow> base)
      else base)"

text \<open>
  \<^verbatim>\<open>var base t.ErrorResponse; _ = json.Unmarshal(respBody, &base)\<close>: only an object
  stores anything. The error is discarded.
\<close>

definition Unmarshal_base :: "payload \<Rightarrow> ErrorResponse" where
  "Unmarshal_base respBody =
     (case respBody of
        Some (JObject kvs) \<Rightarrow> foldl set_field zero_ErrorResponse kvs
      | _ \<Rightarrow> zero_ErrorResponse)"

section \<open>The error normalizer: \<^verbatim>\<open>parseErrorResponse\<close>\<close>

text \<open>
  \<^verbatim>\<open>APIError\<close> embeds \<^verbatim>\<open>GoWallexError\<close>, whose \<^verbatim>\<open>Message\<close> is
  \<open>GoWallexError_Message\<close> here; its \<^verbatim>\<open>Err\<close> is never assigned and stays \<^verbatim>\<open>nil\<close>.
  \<^verbatim>\<open>Result\<close> is a byte slice, \<^verbatim>\<open>nil\<close> until assigned.
\<close>

record APIError =
  GoWallexError_Message :: string
  StatusCode :: int
  Message :: string
  Success :: bool
  Code :: "16 word"
  Result :: "string option"
  Fields :: "string \<rightharpoonup> string list"

text \<open>The body of the loop \<^verbatim>\<open>for k, v := range raw\<close>, for one entry.\<close>

definition visit :: "(string \<Rightarrow> string) \<Rightarrow> string \<times> any \<Rightarrow> APIError \<Rightarrow> APIError" where
  "visit fmtG kv apiErr =
     (case snd kv of
        AString val \<Rightarrow>
          (let e1 = apiErr\<lparr>Fields := (Fields apiErr)(fst kv \<mapsto> [val])\<rparr>
           in if fst kv = ''detail'' then
                (let e2 = e1\<lparr>Result := Some val\<rparr>
                 in if Message e2 = [] then e2\<lparr>Message := val\<rparr> else e2)
              else e1)
      | ASlice items \<Rightarrow> apiErr\<lparr>Fields := (Fields apiErr)(fst kv \<mapsto> map (fmt_v fmtG) items)\<rparr>
      | _ \<Rightarrow> apiErr\<lparr>Fields := (Fields apiErr)(fst kv \<mapsto> [fmt_v fmtG (snd kv)])\<rparr>)"

text \<open>Step 1 of the source: what was recovered from the documented envelope.\<close>

definition adopt_base :: "ErrorResponse \<Rightarrow> APIError \<Rightarrow> APIError" where
  "adopt_base base apiErr =
     (let e1 = (if base_Message base \<noteq> [] then apiErr\<lparr>Message := base_Message base\<rparr> else apiErr);
          e2 = (if 0 <s base_Code base
                then e1\<lparr>Code := base_Code base,
                        Fields := (Fields e1)(''code'' \<mapsto> [itoa (sint (base_Code base))])\<rparr>
                else e1)
      in if base_Message base \<noteq> []
         then e2\<lparr>Message := base_Message base,
                 Fields := (Fields e2)(''message'' \<mapsto> [base_Message base])\<rparr>
         else e2)"

text \<open>\<^verbatim>\<open>&APIError{StatusCode: statusCode, Fields: make(map[string][]string)}\<close>.\<close>

definition new_APIError :: "int \<Rightarrow> APIError" where
  "new_APIError statusCode =
     \<lparr>GoWallexError_Message = [], StatusCode = statusCode, Message = [], Success = False,
      Code = 0, Result = None, Fields = Map.empty\<rparr>"

text \<open>
  The error value before the fallback of step 3. Go visits the entries of a map in an
  order of its own choosing: \<open>ord\<close> is that choice, some rearrangement of the entries.
\<close>

definition merged ::
  "(string \<Rightarrow> string) \<Rightarrow> ((string \<times> any) list \<Rightarrow> (string \<times> any) list) \<Rightarrow> int \<Rightarrow> payload \<Rightarrow> APIError" where
  "merged fmtG ord statusCode respBody =
     (let apiErr = new_APIError statusCode;
          base = Unmarshal_base respBody;
          raw = Unmarshal_raw respBody
      in fold (visit fmtG) (ord raw) (adopt_base base apiErr))"

definition parseErrorResponse ::
  "(string \<Rightarrow> string) \<Rightarrow> ((string \<times> any) list \<Rightarrow> (string \<times> any) list) \<Rightarrow> int \<Rightarrow> payload \<Rightarrow> APIError" where
  "parseErrorResponse fmtG ord statusCode respBody =
     (let apiErr = merged fmtG ord statusCode respBody;
          apiErr' = (if Message apiErr = []
                     then apiErr\<lparr>Message := ''Wallex API error ('' @ itoa statusCode @ '')''\<rparr>
                     else apiErr)
      in apiErr'\<lparr>GoWallexError_Message := Message apiErr'\<rparr>)"

text \<open>An order in which a map can be visited: every entry once.\<close>

definition visits_each_once :: "((string \<times> any) list \<Rightarrow> (string \<times> any) list) \<Rightarrow> bool" where
  "visits_each_once ord = (\<forall>es. mset (ord es) = mset es)"


section \<open>The request executor: \<^verbatim>\<open>Request\<close>\<close>

text \<open>
  The values of Go's \<^verbatim>\<open>error\<close> interface that \<^verbatim>\<open>Request\<close> handles: an error of a
  library call (named by its text), a \<^verbatim>\<open>*GoWallexError\<close> (\<^verbatim>\<open>Message\<close>, \<^verbatim>\<open>Err\<close>), a
  \<^verbatim>\<open>*RequestError\<close> (the \<^verbatim>\<open>Message\<close> and \<^verbatim>\<open>Err\<close> of the embedded \<^verbatim>\<open>GoWallexError\<close>,
  then \<^verbatim>\<open>Operation\<close>) and an \<^verbatim>\<open>*APIError\<close>. \<open>None\<close> of \<open>error option\<close> is \<^verbatim>\<open>nil\<close>.
\<close>

datatype error =
    LibraryError string
  | GoWallexError string "error option"
  | RequestError string "error option" string
  | APIErr APIError

record request =
  Method :: string
  URL :: string
  Body :: string
  Header :: "(string \<times> string) list"

text \<open>
  A response: its status code and what \<^verbatim>\<open>io.ReadAll(resp.Body)\<close> returns, the bytes
  being represented by the \<open>payload\<close> they scan to.
\<close>

record response =
  resp_StatusCode :: int
  resp_Body :: "error + payload"

text \<open>The client; \<open>HttpClient\<close> is the transport's \<^verbatim>\<open>Do\<close>.\<close>

record Client =
  HttpClient :: "request \<Rightarrow> error + response"
  BaseUrl :: string
  Version :: string
  ApiKey :: string

text \<open>
  The calls \<^verbatim>\<open>Request\<close> makes outside this file, as parameters:
  \<^verbatim>\<open>utils.StructToURLParams\<close> (package \<^verbatim>\<open>utils\<close> of this repository),
  \<^verbatim>\<open>json.Marshal\<close>, \<^verbatim>\<open>http.NewRequest\<close> and \<^verbatim>\<open>json.Unmarshal\<close> into the caller's
  \<^verbatim>\<open>result\<close>. The type \<open>'b\<close> is that of the \<^verbatim>\<open>body\<close> argument.
\<close>

record 'b library =
  StructToURLParams :: "'b \<Rightarrow> error + string"
  Marshal :: "'b \<Rightarrow> error + string"
  NewRequest :: "string \<Rightarrow> string \<Rightarrow> string \<Rightarrow> error + request"
  Unmarshal_result :: "payload \<Rightarrow> error option"

definition assertAuth :: "Client \<Rightarrow> error option" where
  "assertAuth client =
     (if ApiKey client = [] then Some (GoWallexError ''API Key is empty'' None) else None)"

text \<open>
  The first part of \<^verbatim>\<open>Request\<close>, up to the \<^verbatim>\<open>Content-Type\<close> header: the query string
  for \<^verbatim>\<open>GET\<close>, the JSON body for \<^verbatim>\<open>POST\<close>, the request object. A \<^verbatim>\<open>nil\<close> body is
  \<open>None\<close>.
\<close>

definition Request_prepare :: "'b library \<Rightarrow> string \<Rightarrow> string \<Rightarrow> 'b option \<Rightarrow> error + request" where
  "Request_prepare lib method url body =
     (case (if method = ''GET''
            then (case body of
                    None \<Rightarrow> Inr url
                  | Some b \<Rightarrow>
                      (case StructToURLParams lib b of
                         Inl err \<Rightarrow> Inl err
                       | Inr urlParams \<Rightarrow> Inr (url @ ''?'' @ urlParams)))
            else Inr url) of
        Inl err \<Rightarrow>
          Inl (RequestError ''failed to convert struct to URL params'' (Some err)
                 ''preparing request parameters'')
      | Inr url' \<Rightarrow>
          (case (if method = ''POST''
                 then (case body of None \<Rightarrow> Inr [] | Some b \<Rightarrow> Marshal lib b)
                 else Inr []) of
             Inl err \<Rightarrow>
               Inl (RequestError ''failed to marshal request body'' (Some err)
                      ''preparing request body'')
           | Inr reqBody \<Rightarrow>
               (case NewRequest lib method url' reqBody of
                  Inl err \<Rightarrow>
                    Inl (RequestError ''failed to create request'' (Some err) ''creating request'')
                | Inr req \<Rightarrow>
                    Inr (req\<lparr>Header := store ''Content-Type'' ''application/json'' (Header req)\<rparr>))))"

text \<open>
  \<^verbatim>\<open>Request\<close> returns its error together with the requests it handed to the
  transport, in order. \<open>has_result\<close> says that \<^verbatim>\<open>result\<close> is not \<^verbatim>\<open>nil\<close>.
\<close>

definition Request ::
  "(string \<Rightarrow> string) \<Rightarrow> ((string \<times> any) list \<Rightarrow> (string \<times> any) list) \<Rightarrow> 'b library \<Rightarrow> Client \<Rightarrow>
     string \<Rightarrow> string \<Rightarrow> bool \<Rightarrow> 'b option \<Rightarrow> bool \<Rightarrow> error option \<times> request list" where
  "Request fmtG ord lib c method url auth body has_result =
     (case Request_prepare lib method url body of
        Inl err \<Rightarrow> (Some err, [])
      | Inr req \<Rightarrow>
          (case (if auth then assertAuth c else None) of
             Some err \<Rightarrow> (Some (GoWallexError ''authentication validation failed'' (Some err)), [])
           | None \<Rightarrow>
               (let req' = (if auth then req\<lparr>Header := store ''X-API-Key'' (ApiKey c) (Header req)\<rparr>
                            else req)
                in case HttpClient c req' of
                     Inl err \<Rightarrow>
                       (Some (RequestError ''failed to send request'' (Some err) ''sending request''),
                        [req'])
                   | Inr resp \<Rightarrow>
                       (case resp_Body resp of
                          Inl err \<Rightarrow>
                            (Some (RequestError ''failed to read response body'' (Some err)
                                     ''reading response''), [req'])
                        | Inr respBody \<Rightarrow>
                            if resp_StatusCode resp < 200 \<or> resp_StatusCode resp \<ge> 300
                            then (Some (APIErr (parseErrorResponse fmtG ord (resp_StatusCode resp)
                                                  respBody)), [req'])
                            else if has_result
                            then (case Unmarshal_result lib respBody of
                                    Some err \<Rightarrow>
                                      (Some (RequestError ''failed to unmarshal response'' (Some err)
                                               ''parsing response''), [req'])
                                  | None \<Rightarrow> (None, [req']))
                            else (None, [req'])))))"

definition is_RequestError :: "error \<Rightarrow> bool" where
  "is_RequestError e = (case e of RequestError m c op \<Rightarrow> True | _ \<Rightarrow> False)"

definition is_APIError :: "error \<Rightarrow> bool" where
  "is_APIError e = (case e of APIErr a \<Rightarrow> True | _ \<Rightarrow> False)"

section \<open>\<^verbatim>\<open>NumericOrEmpty.UnmarshalJSON\<close>\<close>

text \<open>
  \<^verbatim>\<open>NumericOrEmpty\<close> is a \<^verbatim>\<open>float64\<close>. Floating-point numbers are the type \<open>'f\<close> with its
  zero, and \<^verbatim>\<open>strconv.ParseFloat(s, 64)\<close> is the parameter \<open>ParseFloat\<close>, \<open>None\<close> when
  it reports an error.

  \<^verbatim>\<open>json.Unmarshal(data, &num)\<close> for a \<^verbatim>\<open>float64\<close>: a number literal that converts is
  stored, \<^verbatim>\<open>null\<close> stores nothing, everything else is an error. The result is the error or
  the value of \<^verbatim>\<open>num\<close> afterwards.
\<close>

definition Unmarshal_float64 :: "(string \<Rightarrow> 'f option) \<Rightarrow> payload \<Rightarrow> 'f \<Rightarrow> error + 'f" where
  "Unmarshal_float64 ParseFloat data num =
     (case data of
        None \<Rightarrow> Inl (LibraryError ''invalid JSON'')
      | Some JNull \<Rightarrow> Inr num
      | Some (JNumber lit) \<Rightarrow>
          (case ParseFloat lit of
             Some f \<Rightarrow> Inr f
           | None \<Rightarrow> Inl (LibraryError ''cannot unmarshal number into float64''))
      | Some _ \<Rightarrow> Inl (LibraryError ''cannot unmarshal into float64''))"

text \<open>\<^verbatim>\<open>json.Unmarshal(data, &s)\<close> for a \<^verbatim>\<open>string\<close>.\<close>

definition Unmarshal_string :: "payload \<Rightarrow> string \<Rightarrow> error + string" where
  "Unmarshal_string data s =
     (case data of
        None \<Rightarrow> Inl (LibraryError ''invalid JSON'')
      | Some JNull \<Rightarrow> Inr s
      | Some (JString t) \<Rightarrow> Inr t
      | Some _ \<Rightarrow> Inl (LibraryError ''cannot unmarshal into string''))"

text \<open>The method returns its error and the value it leaves in \<^verbatim>\<open>*n\<close>.\<close>

definition UnmarshalJSON :: "(string \<Rightarrow> 'f option) \<Rightarrow> payload \<Rightarrow> error option \<times> 'f::zero" where
  "UnmarshalJSON ParseFloat data =
     (case Unmarshal_float64 ParseFloat data 0 of
        Inr num \<Rightarrow> (None, num)
      | Inl err \<Rightarrow>
          (case Unmarshal_string data [] of
             Inr s \<Rightarrow>
               if s = ''-'' then (None, 0)
               else (case ParseFloat s of
                       Some parsed \<Rightarrow> (None, parsed)
                     | None \<Rightarrow> (None, 0))
           | Inl err' \<Rightarrow> (None, 0)))"

section \<open>Notions used in the statements\<close>

text \<open>What the loop records in \<^verbatim>\<open>Fields\<close> for a value, by the three cases of its switch.\<close>

definition strings_of :: "(string \<Rightarrow> string) \<Rightarrow> any \<Rightarrow> string list" where
  "strings_of fmtG v =
     (case v of
        AString val \<Rightarrow> [val]
      | ASlice items \<Rightarrow> map (fmt_v fmtG) items
      | _ \<Rightarrow> [fmt_v fmtG v])"

text \<open>The string under the key \<^verbatim>\<open>detail\<close> of the generic map, when there is one.\<close>

definition detail_string :: "(string \<times> any) list \<Rightarrow> string option" where
  "detail_string raw = (case map_of raw ''detail'' of Some (AString val) \<Rightarrow> Some val | _ \<Rightarrow> None)"

text \<open>The message of step 3, \<^verbatim>\<open>fmt.Sprintf("Wallex API error (%d)", statusCode)\<close>.\<close>

definition fallback_message :: "int \<Rightarrow> string" where
  "fallback_message statusCode = ''Wallex API error ('' @ itoa statusCode @ '')''"

section \<open>Example values\<close>

text \<open>
  A body that \<^verbatim>\<open>json.Marshal\<close> rejects (a floating-point NaN) and one it accepts (an
  empty struct); a library that builds every request and decodes every JSON value; a client
  whose transport gives the same answer to every request.
\<close>

datatype example_body = NaN | Empty_struct

definition example_library :: "example_body library" where
  "example_library =
     \<lparr>StructToURLParams =
        (\<lambda>b. case b of NaN \<Rightarrow> Inl (LibraryError ''not a struct'') | Empty_struct \<Rightarrow> Inr []),
      Marshal =
        (\<lambda>b. case b of
                NaN \<Rightarrow> Inl (LibraryError ''json: unsupported value: NaN'')
              | Empty_struct \<Rightarrow> Inr ''{}''),
      NewRequest = (\<lambda>method url body. Inr \<lparr>Method = method, URL = url, Body = body, Header = []\<rparr>),
      Unmarshal_result =
        (\<lambda>data. case data of
                   None \<Rightarrow> Some (LibraryError ''unexpected end of JSON input'')
                 | Some v \<Rightarrow> None)\<rparr>"

definition example_client :: "string \<Rightarrow> (error + response) \<Rightarrow> Client" where
  "example_client key answer =
     \<lparr>HttpClient = (\<lambda>req. answer), BaseUrl = ''https://api.wallex.ir'', Version = ''v1'',
      ApiKey = key\<rparr>"

section \<open>Facts of the model\<close>

subsection \<open>Decimal text\<close>

lemma digit_val_digit_char: "d < 10 \<Longrightarrow> digit_val (digit_char d) = Some d"
proof -
  assume "d < 10"
  then have "d \<in> {0, 1, 2, 3, 4, 5, 6, 7, 8, 9}" by auto
  then show ?thesis by (auto simp: digit_val_def digit_char_def)
qed

lemma digit_char_not_zero: "0 < d \<Longrightarrow> d < 10 \<Longrightarrow> digit_char d \<noteq> CHR ''0''"
proof -
  assume "0 < d" "d < 10"
  then have "d \<in> {1, 2, 3, 4, 5, 6, 7, 8, 9}" by auto
  then show ?thesis by (auto simp: digit_char_def)
qed

lemma digit_char_not_sign: "d < 10 \<Longrightarrow> digit_char d \<noteq> CHR ''-'' \<and> digit_char d \<noteq> CHR ''+''"
proof -
  assume "d < 10"
  then have "d \<in> {0, 1, 2, 3, 4, 5, 6, 7, 8, 9}" by auto
  then show ?thesis by (auto simp: digit_char_def)
qed

lemma parse_digits_snoc:
  "parse_digits acc (cs @ [c]) =
     (case parse_digits acc cs of
        None \<Rightarrow> None
      | Some a \<Rightarrow> (case digit_val c of None \<Rightarrow> None | Some d \<Rightarrow> Some (10 * a + d)))"
  by (induction cs arbitrary: acc) (auto split: option.splits)

lemma parse_digits_digits: "parse_digits 0 (digits n) = Some n"
proof (induction n rule: digits.induct)
  case (1 n)
  show ?case
  proof (cases "n < 10")
    case True
    then show ?thesis
      by (subst digits.simps) (simp add: digit_val_digit_char)
  next
    case False
    with 1 have "parse_digits 0 (digits (n div 10)) = Some (n div 10)" by simp
    with False show ?thesis
      by (subst digits.simps) (simp add: parse_digits_snoc digit_val_digit_char)
  qed
qed

lemma digits_not_Nil: "digits n \<noteq> []"
  by (subst digits.simps) simp

lemma digits_all_digit: "list_all is_digit (digits n)"
proof (induction n rule: digits.induct)
  case (1 n)
  show ?case
  proof (cases "n < 10")
    case True
    then show ?thesis
      by (subst digits.simps) (simp add: is_digit_def digit_val_digit_char)
  next
    case False
    with 1 have "list_all is_digit (digits (n div 10))" by simp
    with False show ?thesis
      by (subst digits.simps) (simp add: is_digit_def digit_val_digit_char)
  qed
qed

lemma hd_digits: "0 < n \<Longrightarrow> hd (digits n) \<noteq> CHR ''0'' \<and> hd (digits n) \<noteq> CHR ''-'' \<and> hd (digits n) \<noteq> CHR ''+''"
proof (induction n rule: digits.induct)
  case (1 n)
  show ?case
  proof (cases "n < 10")
    case True
    with "1.prems" show ?thesis
      by (subst (1 2 3) digits.simps) (simp add: digit_char_not_zero digit_char_not_sign)
  next
    case False
    then have "0 < n div 10" by simp
    with 1 False have "hd (digits (n div 10)) \<noteq> CHR ''0'' \<and> hd (digits (n div 10)) \<noteq> CHR ''-''
        \<and> hd (digits (n div 10)) \<noteq> CHR ''+''" by simp
    with False show ?thesis
      by (subst (1 2 3) digits.simps) (simp add: digits_not_Nil)
  qed
qed

lemma length_digits: "n < 10 ^ k \<Longrightarrow> 0 < k \<Longrightarrow> length (digits n) \<le> k"
proof (induction n arbitrary: k rule: digits.induct)
  case (1 n)
  show ?case
  proof (cases "n < 10")
    case True
    with "1.prems" show ?thesis
      by (subst digits.simps) simp
  next
    case False
    from "1.prems" obtain j where k: "k = Suc j" by (cases k) auto
    from False "1.prems" k have "0 < j" by (cases j) auto
    moreover from "1.prems" k have "n div 10 < 10 ^ j"
      by (simp add: less_mult_imp_div_less mult.commute)
    ultimately have "length (digits (n div 10)) \<le> j"
      using 1 False by simp
    with False k show ?thesis
      by (subst digits.simps) simp
  qed
qed

lemma take1_digits: "0 < n \<Longrightarrow> take 1 (digits n) \<noteq> ''-'' \<and> take 1 (digits n) \<noteq> ''+'' \<and> take 1 (digits n) \<noteq> ''0''"
  using hd_digits [of n] digits_not_Nil [of n]
  by (cases "digits n") auto

lemma ParseInt_itoa: "0 < i \<Longrightarrow> i < 2 ^ 63 \<Longrightarrow> ParseInt (itoa i) = Some i"
  using take1_digits [of "nat i"]
  by (simp add: ParseInt_def itoa_def digits_not_Nil parse_digits_digits)

lemma plain_integer_itoa: "0 < i \<Longrightarrow> i < 10 ^ 6 \<Longrightarrow> plain_integer (itoa i)"
proof -
  assume i: "0 < i" "i < 10 ^ 6"
  then have "nat i < 10 ^ 6" by (simp add: nat_less_iff)
  then have "length (digits (nat i)) \<le> 6" by (rule length_digits) simp
  with i take1_digits [of "nat i"] show ?thesis
    by (simp add: plain_integer_def itoa_def digits_not_Nil digits_all_digit)
qed

subsection \<open>\<^verbatim>\<open>NumericOrEmpty\<close>\<close>

text \<open>
  C10. For every input, \<^verbatim>\<open>NumericOrEmpty.UnmarshalJSON\<close> returns \<^verbatim>\<open>nil\<close>. A JSON number
  yields the number its literal converts to, a JSON string other than \<^verbatim>\<open>"-"\<close> that
  \<^verbatim>\<open>strconv.ParseFloat\<close> accepts yields the parsed value, and every other input (bytes
  that are not JSON, \<^verbatim>\<open>null\<close>, booleans, arrays, objects, the string \<^verbatim>\<open>"-"\<close>, a string or
  a literal that does not convert) yields 0.
\<close>

theorem UnmarshalJSON_returns_nil:
  "fst (UnmarshalJSON ParseFloat data) = None \<and>
   snd (UnmarshalJSON ParseFloat data) =
     (case data of
        Some (JNumber lit) \<Rightarrow> (case ParseFloat lit of Some f \<Rightarrow> f | None \<Rightarrow> 0)
      | Some (JString s) \<Rightarrow>
          (if s = ''-'' then 0 else (case ParseFloat s of Some f \<Rightarrow> f | None \<Rightarrow> 0))
      | _ \<Rightarrow> 0)"
  by (simp add: UnmarshalJSON_def Unmarshal_float64_def Unmarshal_string_def
      split: option.split json.split)

subsection \<open>The generic map\<close>

lemma map_of_store: "map_of (store k v m) = (map_of m)(k \<mapsto> v)"
  by (induction m) auto

lemma keys_store: "fst ` set (store k v m) = insert k (fst ` set m)"
  by (induction m) auto

lemma distinct_store: "distinct (map fst m) \<Longrightarrow> distinct (map fst (store k v m))"
proof (induction m)
  case Nil
  then show ?case by simp
next
  case (Cons e m)
  have "fst ` set (store k v m) = insert k (fst ` set m)" by (rule keys_store)
  with Cons show ?case by auto
qed

lemma foldl_store:
  "map_of (foldl (\<lambda>m kv. store (fst kv) (snd kv) m) m0 kvs) = map_of m0 ++ map_of (rev kvs)"
proof (induction kvs arbitrary: m0)
  case Nil
  then show ?case by simp
next
  case (Cons kv kvs)
  have "map_of (store (fst kv) (snd kv) m0) ++ map_of (rev kvs) =
        map_of m0 ++ (map_of (rev kvs @ [kv]))"
    by (cases kv) (simp add: map_of_store)
  with Cons show ?case by simp
qed

lemma foldl_store_distinct:
  "distinct (map fst m0) \<Longrightarrow> distinct (map fst (foldl (\<lambda>m kv. store (fst kv) (snd kv) m) m0 kvs))"
  by (induction kvs arbitrary: m0) (simp_all add: distinct_store)

lemma map_of_object_entries: "map_of (object_entries kvs) = map_of (rev kvs)"
  by (simp add: object_entries_def foldl_store)

lemma distinct_object_entries: "distinct (map fst (object_entries kvs))"
  by (simp add: object_entries_def foldl_store_distinct)

lemma distinct_Unmarshal_raw: "distinct (map fst (Unmarshal_raw respBody))"
  by (simp add: Unmarshal_raw_def distinct_object_entries split: option.split json.split)

subsection \<open>One visit of the loop\<close>

lemma Fields_visit: "Fields (visit fmtG kv a) = (Fields a)(fst kv \<mapsto> strings_of fmtG (snd kv))"
  by (simp add: visit_def strings_of_def Let_def split: any.split)

lemma Message_visit:
  "Message (visit fmtG kv a) =
     (if Message a = [] \<and> fst kv = ''detail''
      then (case snd kv of AString val \<Rightarrow> val | _ \<Rightarrow> [])
      else Message a)"
  by (simp add: visit_def Let_def split: any.split)

lemma Result_visit:
  "Result (visit fmtG kv a) =
     (if fst kv = ''detail''
      then (case snd kv of AString val \<Rightarrow> Some val | _ \<Rightarrow> Result a)
      else Result a)"
  by (simp add: visit_def Let_def split: any.split)

lemma rest_visit:
  "StatusCode (visit fmtG kv a) = StatusCode a"
  "Success (visit fmtG kv a) = Success a"
  "Code (visit fmtG kv a) = Code a"
  "GoWallexError_Message (visit fmtG kv a) = GoWallexError_Message a"
  by (simp_all add: visit_def Let_def split: any.split)

subsection \<open>The whole loop, over entries with distinct keys\<close>

lemma rest_fold_visit:
  "StatusCode (fold (visit fmtG) es a) = StatusCode a"
  "Success (fold (visit fmtG) es a) = Success a"
  "Code (fold (visit fmtG) es a) = Code a"
  "GoWallexError_Message (fold (visit fmtG) es a) = GoWallexError_Message a"
  by (induction es arbitrary: a) (simp_all add: rest_visit)

lemma Fields_fold_visit:
  "distinct (map fst es) \<Longrightarrow>
   Fields (fold (visit fmtG) es a) k =
     (case map_of es k of Some v \<Rightarrow> Some (strings_of fmtG v) | None \<Rightarrow> Fields a k)"
proof (induction es arbitrary: a)
  case Nil
  then show ?case by simp
next
  case (Cons e es)
  then have "map_of es (fst e) = None"
    by (simp add: map_of_eq_None_iff)
  with Cons show ?case
    by (auto simp: Fields_visit split: option.split)
qed

lemma Message_fold_visit:
  "distinct (map fst es) \<Longrightarrow>
   Message (fold (visit fmtG) es a) =
     (if Message a \<noteq> [] then Message a
      else (case detail_string es of Some val \<Rightarrow> val | None \<Rightarrow> []))"
proof (induction es arbitrary: a)
  case Nil
  then show ?case by (simp add: detail_string_def)
next
  case (Cons e es)
  then have none: "map_of es (fst e) = None"
    by (simp add: map_of_eq_None_iff)
  from Cons have IH: "Message (fold (visit fmtG) es (visit fmtG e a)) =
     (if Message (visit fmtG e a) \<noteq> [] then Message (visit fmtG e a)
      else (case detail_string es of Some val \<Rightarrow> val | None \<Rightarrow> []))"
    by simp
  show ?case
  proof (cases "fst e = ''detail''")
    case True
    with none have "detail_string es = None" by (simp add: detail_string_def)
    with True IH show ?thesis
      by (auto simp: Message_visit detail_string_def split: any.split)
  next
    case False
    with IH show ?thesis
      by (auto simp: Message_visit detail_string_def)
  qed
qed

lemma Result_fold_visit:
  "distinct (map fst es) \<Longrightarrow>
   Result (fold (visit fmtG) es a) =
     (case detail_string es of Some val \<Rightarrow> Some val | None \<Rightarrow> Result a)"
proof (induction es arbitrary: a)
  case Nil
  then show ?case by (simp add: detail_string_def)
next
  case (Cons e es)
  then have none: "map_of es (fst e) = None"
    by (simp add: map_of_eq_None_iff)
  from Cons have IH: "Result (fold (visit fmtG) es (visit fmtG e a)) =
     (case detail_string es of Some val \<Rightarrow> Some val | None \<Rightarrow> Result (visit fmtG e a))"
    by simp
  show ?case
  proof (cases "fst e = ''detail''")
    case True
    with none have "detail_string es = None" by (simp add: detail_string_def)
    with True IH show ?thesis
      by (auto simp: Result_visit detail_string_def split: any.split)
  next
    case False
    then have "Result (visit fmtG e a) = Result a" by (simp add: Result_visit)
    with IH False show ?thesis
      by (simp add: detail_string_def split: option.split any.split)
  qed
qed

subsection \<open>The order of the visits\<close>

lemma visits_each_once_distinct:
  "visits_each_once ord \<Longrightarrow> distinct (map fst es) \<Longrightarrow> distinct (map fst (ord es))"
proof -
  assume "visits_each_once ord" and d: "distinct (map fst es)"
  then have "mset (ord es) = mset es" by (simp add: visits_each_once_def)
  then have "mset (map fst (ord es)) = mset (map fst es)" by simp
  then have "distinct (map fst (ord es)) \<longleftrightarrow> distinct (map fst es)"
    by (rule mset_eq_imp_distinct_iff)
  with d show ?thesis by simp
qed

lemma visits_each_once_map_of:
  "visits_each_once ord \<Longrightarrow> distinct (map fst es) \<Longrightarrow> map_of (ord es) = map_of es"
proof -
  assume v: "visits_each_once ord" and d: "distinct (map fst es)"
  then have "mset (ord es) = mset es" by (simp add: visits_each_once_def)
  then have "set (ord es) = set es" by (rule mset_eq_setD)
  moreover from v d have "distinct (map fst (ord es))" by (rule visits_each_once_distinct)
  ultimately show ?thesis using d by (simp add: map_of_inject_set)
qed

lemma visits_each_once_detail:
  "visits_each_once ord \<Longrightarrow> distinct (map fst es) \<Longrightarrow> detail_string (ord es) = detail_string es"
  by (simp add: detail_string_def visits_each_once_map_of)

subsection \<open>The two passes together\<close>

lemma Message_adopt_base:
  "Message (adopt_base base a) = (if base_Message base \<noteq> [] then base_Message base else Message a)"
  by (simp add: adopt_base_def Let_def)

lemma Code_adopt_base:
  "Code (adopt_base base a) = (if 0 <s base_Code base then base_Code base else Code a)"
  by (simp add: adopt_base_def Let_def)

lemma Fields_adopt_base:
  "Fields (adopt_base base a) =
     (let fs = (if 0 <s base_Code base
                then (Fields a)(''code'' \<mapsto> [itoa (sint (base_Code base))]) else Fields a)
      in if base_Message base \<noteq> [] then fs(''message'' \<mapsto> [base_Message base]) else fs)"
  by (simp add: adopt_base_def Let_def)

lemma rest_adopt_base:
  "StatusCode (adopt_base base a) = StatusCode a"
  "Success (adopt_base base a) = Success a"
  "Result (adopt_base base a) = Result a"
  "GoWallexError_Message (adopt_base base a) = GoWallexError_Message a"
  by (simp_all add: adopt_base_def Let_def)

lemma rest_merged:
  "StatusCode (merged fmtG ord statusCode respBody) = statusCode"
  "Success (merged fmtG ord statusCode respBody) = False"
  "GoWallexError_Message (merged fmtG ord statusCode respBody) = []"
  "Code (merged fmtG ord statusCode respBody) =
     (if 0 <s base_Code (Unmarshal_base respBody) then base_Code (Unmarshal_base respBody) else 0)"
  by (simp_all add: merged_def Let_def rest_fold_visit rest_adopt_base Code_adopt_base new_APIError_def)

lemma Message_merged_base:
  "base_Message (Unmarshal_base respBody) \<noteq> [] \<Longrightarrow>
   Message (merged fmtG ord statusCode respBody) = base_Message (Unmarshal_base respBody)"
proof -
  have keep: "Message (fold (visit fmtG) es a) = Message a" if "Message a \<noteq> []" for es a
    using that by (induction es arbitrary: a) (simp_all add: Message_visit)
  assume "base_Message (Unmarshal_base respBody) \<noteq> []"
  then show ?thesis
    by (simp add: merged_def Let_def keep Message_adopt_base)
qed

lemma Message_merged:
  "visits_each_once ord \<Longrightarrow>
   Message (merged fmtG ord statusCode respBody) =
     (if base_Message (Unmarshal_base respBody) \<noteq> [] then base_Message (Unmarshal_base respBody)
      else (case detail_string (Unmarshal_raw respBody) of Some val \<Rightarrow> val | None \<Rightarrow> []))"
  by (simp add: merged_def Let_def Message_fold_visit visits_each_once_distinct
      visits_each_once_detail distinct_Unmarshal_raw Message_adopt_base new_APIError_def)

lemma Result_merged:
  "visits_each_once ord \<Longrightarrow>
   Result (merged fmtG ord statusCode respBody) = detail_string (Unmarshal_raw respBody)"
  by (simp add: merged_def Let_def Result_fold_visit visits_each_once_distinct
      visits_each_once_detail distinct_Unmarshal_raw rest_adopt_base new_APIError_def
      split: option.split)

lemma Fields_merged:
  "visits_each_once ord \<Longrightarrow>
   Fields (merged fmtG ord statusCode respBody) k =
     (case map_of (Unmarshal_raw respBody) k of
        Some v \<Rightarrow> Some (strings_of fmtG v)
      | None \<Rightarrow> Fields (adopt_base (Unmarshal_base respBody) (new_APIError statusCode)) k)"
  by (simp add: merged_def Let_def Fields_fold_visit visits_each_once_distinct
      visits_each_once_map_of distinct_Unmarshal_raw)

lemma merged_order:
  assumes "visits_each_once ord1" and "visits_each_once ord2"
  shows "merged fmtG ord1 statusCode respBody = merged fmtG ord2 statusCode respBody"
proof (rule APIError.equality)
  show "Fields (merged fmtG ord1 statusCode respBody) = Fields (merged fmtG ord2 statusCode respBody)"
    using assms by (intro ext) (simp add: Fields_merged)
qed (use assms in \<open>simp_all add: rest_merged Message_merged Result_merged\<close>)

lemma parseErrorResponse_fields:
  "Message (parseErrorResponse fmtG ord statusCode respBody) =
     (if Message (merged fmtG ord statusCode respBody) = [] then fallback_message statusCode
      else Message (merged fmtG ord statusCode respBody))"
  "GoWallexError_Message (parseErrorResponse fmtG ord statusCode respBody) =
     Message (parseErrorResponse fmtG ord statusCode respBody)"
  "StatusCode (parseErrorResponse fmtG ord statusCode respBody) = statusCode"
  "Success (parseErrorResponse fmtG ord statusCode respBody) = False"
  "Code (parseErrorResponse fmtG ord statusCode respBody) = Code (merged fmtG ord statusCode respBody)"
  "Result (parseErrorResponse fmtG ord statusCode respBody) = Result (merged fmtG ord statusCode respBody)"
  "Fields (parseErrorResponse fmtG ord statusCode respBody) = Fields (merged fmtG ord statusCode respBody)"
  by (simp_all add: parseErrorResponse_def Let_def fallback_message_def rest_merged)

lemma fallback_message_not_Nil: "fallback_message statusCode \<noteq> []"
  by (simp add: fallback_message_def)

lemma sint_word_of_int_16:
  "- (2 ^ 15) \<le> n \<Longrightarrow> n < 2 ^ 15 \<Longrightarrow> sint (word_of_int n :: 16 word) = n"
  by (simp add: int_word_sint mod_pos_pos_trivial)

lemma map_of_decoded:
  "map_of (map (map_prod id f) kvs) k = map_option f (map_of kvs k)"
  by (induction kvs) auto

lemma map_of_Unmarshal_raw:
  "map_of (Unmarshal_raw (Some (JObject kvs))) k = map_option decode_any (map_of (rev kvs) k)"
  by (simp add: Unmarshal_raw_def map_of_object_entries rev_map map_of_decoded)

subsection \<open>The error normalizer\<close>

lemma visits_each_once_rev: "visits_each_once rev"
  by (simp add: visits_each_once_def)

lemma visits_each_once_same: "visits_each_once (\<lambda>es. es)"
  by (simp add: visits_each_once_def)

lemma visits_each_once_Nil: "visits_each_once ord \<Longrightarrow> ord [] = []"
proof -
  assume "visits_each_once ord"
  then have "mset (ord []) = mset []" unfolding visits_each_once_def by blast
  then show ?thesis by simp
qed

lemma Unmarshal_base_envelope:
  "0 < C \<Longrightarrow> C < 2 ^ 15 \<Longrightarrow>
   Unmarshal_base (Some (JObject [(''success'', JBool False), (''code'', JNumber (itoa C)),
                                  (''message'', JString M)])) =
   \<lparr>base_Message = M, base_Success = False, base_Code = word_of_int C\<rparr>"
proof -
  assume C: "0 < C" "C < 2 ^ 15"
  then have "C < 2 ^ 63" by simp
  with C have "ParseInt (itoa C) = Some C" by (simp add: ParseInt_itoa)
  moreover have "foldName ''success'' = ''SUCCESS''" "foldName ''code'' = ''CODE''"
    "foldName ''message'' = ''MESSAGE''"
    by (simp_all add: upper_def)
  ultimately show ?thesis
    using C by (simp add: Unmarshal_base_def set_field_def zero_ErrorResponse_def)
qed

lemma Unmarshal_raw_envelope:
  "Unmarshal_raw (Some (JObject [(''success'', JBool False), (''code'', JNumber lit),
                                 (''message'', JString M)])) =
   [(''success'', ABool False), (''code'', AFloat lit), (''message'', AString M)]"
  by (simp add: Unmarshal_raw_def object_entries_def)

text \<open>
  C1. For the documented error payload \<^verbatim>\<open>{"success":false,"code":C,"message":M}\<close> with
  \<open>M\<close> not empty and \<open>C\<close> a positive integer of the \<^verbatim>\<open>int16\<close> field, written as a
  decimal literal, \<^verbatim>\<open>parseErrorResponse\<close> returns an error with \<^verbatim>\<open>Message\<close> \<open>M\<close>,
  \<^verbatim>\<open>Code\<close> \<open>C\<close>, \<^verbatim>\<open>Fields["code"]\<close> the single decimal text of \<open>C\<close> and
  \<^verbatim>\<open>Fields["message"]\<close> the single \<open>M\<close>; the generic pass renders the number again, to
  the same text.
\<close>

theorem documented_envelope:
  assumes "visits_each_once ord" and "M \<noteq> []" and "0 < C" and "C < 2 ^ 15"
  shows "Message (parseErrorResponse fmtG ord statusCode
           (Some (JObject [(''success'', JBool False), (''code'', JNumber (itoa C)),
                           (''message'', JString M)]))) = M \<and>
         Code (parseErrorResponse fmtG ord statusCode
           (Some (JObject [(''success'', JBool False), (''code'', JNumber (itoa C)),
                           (''message'', JString M)]))) = word_of_int C \<and>
         sint (Code (parseErrorResponse fmtG ord statusCode
           (Some (JObject [(''success'', JBool False), (''code'', JNumber (itoa C)),
                           (''message'', JString M)])))) = C \<and>
         Fields (parseErrorResponse fmtG ord statusCode
           (Some (JObject [(''success'', JBool False), (''code'', JNumber (itoa C)),
                           (''message'', JString M)]))) ''code'' = Some [itoa C] \<and>
         Fields (parseErrorResponse fmtG ord statusCode
           (Some (JObject [(''success'', JBool False), (''code'', JNumber (itoa C)),
                           (''message'', JString M)]))) ''message'' = Some [M]"
proof -
  let ?p = "Some (JObject [(''success'', JBool False), (''code'', JNumber (itoa C)),
                           (''message'', JString M)])"
  from assms have base: "Unmarshal_base ?p =
      \<lparr>base_Message = M, base_Success = False, base_Code = word_of_int C\<rparr>"
    by (simp add: Unmarshal_base_envelope)
  from assms have sint: "sint (word_of_int C :: 16 word) = C"
    by (simp add: sint_word_of_int_16)
  with assms have pos: "0 <s (word_of_int C :: 16 word)"
    by (simp add: word_sless_alt)
  from assms have "C < 10 ^ 6" by simp
  with assms have plain: "plain_integer (itoa C)" by (simp add: plain_integer_itoa)
  from assms base have m: "Message (merged fmtG ord statusCode ?p) = M"
    by (simp add: Message_merged)
  from base pos have c: "Code (merged fmtG ord statusCode ?p) = word_of_int C"
    by (simp add: rest_merged)
  from assms plain have fc: "Fields (merged fmtG ord statusCode ?p) ''code'' = Some [itoa C]"
    by (simp add: Fields_merged Unmarshal_raw_envelope strings_of_def fmt_float_def)
  from assms have fm: "Fields (merged fmtG ord statusCode ?p) ''message'' = Some [M]"
    by (simp add: Fields_merged Unmarshal_raw_envelope strings_of_def)
  from m c fc fm sint assms show ?thesis
    by (simp add: parseErrorResponse_fields)
qed

theorem documented_envelope_witness:
  "visits_each_once rev \<and> ''invalid API key format'' \<noteq> [] \<and> (0 :: int) < 1201 \<and> (1201 :: int) < 2 ^ 15 \<and>
   Message (parseErrorResponse (\<lambda>lit. lit) rev 401
     (Some (JObject [(''success'', JBool False), (''code'', JNumber ''1201''),
                     (''message'', JString ''invalid API key format'')]))) = ''invalid API key format'' \<and>
   sint (Code (parseErrorResponse (\<lambda>lit. lit) rev 401
     (Some (JObject [(''success'', JBool False), (''code'', JNumber ''1201''),
                     (''message'', JString ''invalid API key format'')])))) = 1201 \<and>
   Fields (parseErrorResponse (\<lambda>lit. lit) rev 401
     (Some (JObject [(''success'', JBool False), (''code'', JNumber ''1201''),
                     (''message'', JString ''invalid API key format'')]))) ''code'' = Some [''1201''] \<and>
   Fields (parseErrorResponse (\<lambda>lit. lit) rev 401
     (Some (JObject [(''success'', JBool False), (''code'', JNumber ''1201''),
                     (''message'', JString ''invalid API key format'')]))) ''message'' =
     Some [''invalid API key format'']"
proof -
  have lit: "itoa 1201 = ''1201''"
    by (simp add: itoa_def digits.simps digit_char_def)
  show ?thesis
    using documented_envelope [of rev "''invalid API key format''" 1201 "\<lambda>lit. lit" 401]
    by (simp add: visits_each_once_rev lit)
qed

text \<open>
  C2. For every status code and every body, the \<^verbatim>\<open>Message\<close> of the error that
  \<^verbatim>\<open>parseErrorResponse\<close> returns is not empty (nor is the message of the embedded
  \<^verbatim>\<open>GoWallexError\<close>). When the two passes left the message empty, that is when the
  envelope held no non-empty message and the generic map no non-empty \<^verbatim>\<open>detail\<close> string, the
  message is \<^verbatim>\<open>Wallex API error (N)\<close> with the status code \<open>N\<close> in decimal.
\<close>

theorem message_never_empty:
  "Message (parseErrorResponse fmtG ord N respBody) \<noteq> [] \<and>
   GoWallexError_Message (parseErrorResponse fmtG ord N respBody) \<noteq> [] \<and>
   (Message (merged fmtG ord N respBody) = [] \<longrightarrow>
      Message (parseErrorResponse fmtG ord N respBody) = ''Wallex API error ('' @ itoa N @ '')'') \<and>
   (visits_each_once ord \<and> base_Message (Unmarshal_base respBody) = [] \<and>
    (detail_string (Unmarshal_raw respBody) = None \<or> detail_string (Unmarshal_raw respBody) = Some [])
    \<longrightarrow> Message (parseErrorResponse fmtG ord N respBody) = ''Wallex API error ('' @ itoa N @ '')'')"
  by (auto simp: parseErrorResponse_fields fallback_message_def Message_merged)

theorem message_never_empty_witness:
  "Message (merged (\<lambda>lit. lit) rev 502 None) = [] \<and>
   visits_each_once rev \<and> base_Message (Unmarshal_base None) = [] \<and>
   detail_string (Unmarshal_raw None) = None \<and>
   Message (parseErrorResponse (\<lambda>lit. lit) rev 502 None) = ''Wallex API error (502)''"
proof -
  have lit: "itoa 502 = ''502''"
    by (simp add: itoa_def digits.simps digit_char_def)
  have "base_Message (Unmarshal_base None) = []"
    by (simp add: Unmarshal_base_def zero_ErrorResponse_def)
  moreover have "detail_string (Unmarshal_raw None) = None"
    by (simp add: Unmarshal_raw_def detail_string_def)
  moreover have "Message (merged (\<lambda>lit. lit) rev 502 None) = []"
    by (simp add: merged_def Unmarshal_raw_def Unmarshal_base_def zero_ErrorResponse_def
        adopt_base_def new_APIError_def)
  ultimately show ?thesis
    using message_never_empty [of "\<lambda>lit. lit" rev 502 None]
    by (simp add: visits_each_once_rev lit)
qed

lemma Unmarshal_detail:
  "Unmarshal_base (Some (JObject [(''detail'', JString D)])) = zero_ErrorResponse"
  "Unmarshal_raw (Some (JObject [(''detail'', JString D)])) = [(''detail'', AString D)]"
  by (simp_all add: Unmarshal_base_def set_field_def upper_def Unmarshal_raw_def object_entries_def)

text \<open>
  C3, as the code has it. For the body \<^verbatim>\<open>{"detail": D}\<close> and every status code,
  \<^verbatim>\<open>Result\<close> holds \<open>D\<close> and \<^verbatim>\<open>Fields["detail"]\<close> is the single \<open>D\<close>; \<^verbatim>\<open>Message\<close> is
  \<open>D\<close> when \<open>D\<close> is not empty, and the synthesized message of step 3 when \<open>D\<close> is
  empty. For every body, a message adopted from the documented envelope is the message
  returned, whatever \<^verbatim>\<open>detail\<close> holds.
\<close>

theorem bare_detail:
  assumes "visits_each_once ord"
  shows "Result (parseErrorResponse fmtG ord N (Some (JObject [(''detail'', JString D)]))) = Some D \<and>
         Fields (parseErrorResponse fmtG ord N (Some (JObject [(''detail'', JString D)]))) ''detail'' = Some [D] \<and>
         (D \<noteq> [] \<longrightarrow>
            Message (parseErrorResponse fmtG ord N (Some (JObject [(''detail'', JString D)]))) = D) \<and>
         (D = [] \<longrightarrow>
            Message (parseErrorResponse fmtG ord N (Some (JObject [(''detail'', JString D)]))) =
              ''Wallex API error ('' @ itoa N @ '')'') \<and>
         (base_Message (Unmarshal_base respBody) \<noteq> [] \<longrightarrow>
            Message (parseErrorResponse fmtG ord N respBody) = base_Message (Unmarshal_base respBody))"
proof -
  let ?p = "Some (JObject [(''detail'', JString D)])"
  from assms have m: "Message (merged fmtG ord N ?p) = D"
    by (simp add: Message_merged Unmarshal_detail zero_ErrorResponse_def detail_string_def)
  from assms have r: "Result (merged fmtG ord N ?p) = Some D"
    by (simp add: Result_merged Unmarshal_detail detail_string_def)
  from assms have f: "Fields (merged fmtG ord N ?p) ''detail'' = Some [D]"
    by (simp add: Fields_merged Unmarshal_detail strings_of_def)
  have b: "Message (parseErrorResponse fmtG ord N respBody) = base_Message (Unmarshal_base respBody)"
    if "base_Message (Unmarshal_base respBody) \<noteq> []"
    using that by (simp add: parseErrorResponse_fields Message_merged_base)
  show ?thesis
  proof (intro conjI impI)
    from r show "Result (parseErrorResponse fmtG ord N ?p) = Some D"
      by (simp add: parseErrorResponse_fields)
    from f show "Fields (parseErrorResponse fmtG ord N ?p) ''detail'' = Some [D]"
      by (simp add: parseErrorResponse_fields)
    assume "D \<noteq> []"
    with m show "Message (parseErrorResponse fmtG ord N ?p) = D"
      by (simp add: parseErrorResponse_fields)
  next
    assume "D = []"
    with m show "Message (parseErrorResponse fmtG ord N ?p) = ''Wallex API error ('' @ itoa N @ '')''"
      by (simp add: parseErrorResponse_fields fallback_message_def)
  next
    assume "base_Message (Unmarshal_base respBody) \<noteq> []"
    then show "Message (parseErrorResponse fmtG ord N respBody) = base_Message (Unmarshal_base respBody)"
      by (rule b)
  qed
qed

theorem bare_detail_witness:
  "visits_each_once rev \<and> ''missing required parameter'' \<noteq> [] \<and>
   Result (parseErrorResponse (\<lambda>lit. lit) rev 422
      (Some (JObject [(''detail'', JString ''missing required parameter'')]))) =
     Some ''missing required parameter'' \<and>
   Fields (parseErrorResponse (\<lambda>lit. lit) rev 422
      (Some (JObject [(''detail'', JString ''missing required parameter'')]))) ''detail'' =
     Some [''missing required parameter''] \<and>
   Message (parseErrorResponse (\<lambda>lit. lit) rev 422
      (Some (JObject [(''detail'', JString ''missing required parameter'')]))) =
     ''missing required parameter'' \<and>
   base_Message (Unmarshal_base
      (Some (JObject [(''message'', JString ''bad''), (''detail'', JString ''worse'')]))) \<noteq> [] \<and>
   Message (parseErrorResponse (\<lambda>lit. lit) rev 422
      (Some (JObject [(''message'', JString ''bad''), (''detail'', JString ''worse'')]))) = ''bad''"
proof -
  have base: "base_Message (Unmarshal_base
      (Some (JObject [(''message'', JString ''bad''), (''detail'', JString ''worse'')]))) = ''bad''"
    by (simp add: Unmarshal_base_def set_field_def upper_def zero_ErrorResponse_def)
  show ?thesis
    using bare_detail [of rev "\<lambda>lit. lit" 422 "''missing required parameter''"
        "Some (JObject [(''message'', JString ''bad''), (''detail'', JString ''worse'')])"]
    by (simp add: visits_each_once_rev base)
qed

text \<open>
  C3 as stated fails for the empty string: the body \<^verbatim>\<open>{"detail": ""}\<close> with status 400
  gives the message \<^verbatim>\<open>Wallex API error (400)\<close>, not the empty \<open>D\<close>.
\<close>

theorem bare_detail_empty_counterexample:
  "Message (parseErrorResponse (\<lambda>lit. lit) (\<lambda>es. es) 400 (Some (JObject [(''detail'', JString '''')]))) =
     ''Wallex API error (400)'' \<and>
   Message (parseErrorResponse (\<lambda>lit. lit) (\<lambda>es. es) 400 (Some (JObject [(''detail'', JString '''')]))) \<noteq> ''''"
proof -
  have lit: "itoa 400 = ''400''"
    by (simp add: itoa_def digits.simps digit_char_def)
  have "Message (merged (\<lambda>lit. lit) (\<lambda>es. es) 400 (Some (JObject [(''detail'', JString '''')]))) = []"
    by (simp add: merged_def Unmarshal_detail zero_ErrorResponse_def adopt_base_def
        new_APIError_def visit_def)
  then show ?thesis
    by (simp add: parseErrorResponse_fields fallback_message_def lit)
qed

text \<open>
  C6. Two runs of \<^verbatim>\<open>parseErrorResponse\<close> on the same body and status code return the same
  error, field for field, in whatever order each run visits the generic map.
\<close>

theorem normalizer_deterministic:
  assumes "visits_each_once ord1" and "visits_each_once ord2"
  shows "parseErrorResponse fmtG ord1 statusCode respBody =
         parseErrorResponse fmtG ord2 statusCode respBody"
proof -
  from assms have "merged fmtG ord1 statusCode respBody = merged fmtG ord2 statusCode respBody"
    by (rule merged_order)
  then show ?thesis by (simp add: parseErrorResponse_def)
qed

theorem normalizer_deterministic_witness:
  "visits_each_once rev \<and> visits_each_once (\<lambda>es. es) \<and>
   parseErrorResponse (\<lambda>lit. lit) rev 400
     (Some (JObject [(''detail'', JString ''no''), (''errors'', JArray [JString ''a'', JNull]),
                     (''code'', JNumber ''7''), (''detail'', JString ''twice'')])) =
   parseErrorResponse (\<lambda>lit. lit) (\<lambda>es. es) 400
     (Some (JObject [(''detail'', JString ''no''), (''errors'', JArray [JString ''a'', JNull]),
                     (''code'', JNumber ''7''), (''detail'', JString ''twice'')]))"
  using normalizer_deterministic [of rev "\<lambda>es. es" "\<lambda>lit. lit" 400
      "Some (JObject [(''detail'', JString ''no''), (''errors'', JArray [JString ''a'', JNull]),
                     (''code'', JNumber ''7''), (''detail'', JString ''twice'')])"]
  by (simp add: visits_each_once_rev visits_each_once_same)

text \<open>
  C7. For the empty body and for the body \<^verbatim>\<open>{}\<close> alike, neither decode recovers anything,
  no error surfaces, and the error returned has the synthesized, non-empty message with the
  status code and an empty \<^verbatim>\<open>Fields\<close> map.
\<close>

theorem empty_body:
  assumes "visits_each_once ord" and "respBody = None \<or> respBody = Some (JObject [])"
  shows "Unmarshal_base respBody = zero_ErrorResponse \<and> Unmarshal_raw respBody = [] \<and>
         Message (parseErrorResponse fmtG ord N respBody) = ''Wallex API error ('' @ itoa N @ '')'' \<and>
         Message (parseErrorResponse fmtG ord N respBody) \<noteq> [] \<and>
         Fields (parseErrorResponse fmtG ord N respBody) = Map.empty"
proof -
  from assms(2) have base: "Unmarshal_base respBody = zero_ErrorResponse"
    by (auto simp: Unmarshal_base_def)
  from assms(2) have raw: "Unmarshal_raw respBody = []"
    by (auto simp: Unmarshal_raw_def object_entries_def)
  from assms(1) base raw have "Message (merged fmtG ord N respBody) = []"
    by (simp add: Message_merged zero_ErrorResponse_def detail_string_def)
  moreover from assms(1) base raw have "Fields (merged fmtG ord N respBody) = Map.empty"
    by (intro ext) (simp add: Fields_merged Fields_adopt_base zero_ErrorResponse_def new_APIError_def)
  ultimately show ?thesis
    using base raw by (simp add: parseErrorResponse_fields fallback_message_def)
qed

theorem empty_body_witness:
  "visits_each_once rev \<and>
   Message (parseErrorResponse (\<lambda>lit. lit) rev 503 None) = ''Wallex API error (503)'' \<and>
   Fields (parseErrorResponse (\<lambda>lit. lit) rev 503 None) = Map.empty \<and>
   Message (parseErrorResponse (\<lambda>lit. lit) rev 503 (Some (JObject []))) = ''Wallex API error (503)'' \<and>
   Fields (parseErrorResponse (\<lambda>lit. lit) rev 503 (Some (JObject []))) = Map.empty"
proof -
  have lit: "itoa 503 = ''503''"
    by (simp add: itoa_def digits.simps digit_char_def)
  show ?thesis
    using empty_body [of rev None "\<lambda>lit. lit" 503]
      empty_body [of rev "Some (JObject [])" "\<lambda>lit. lit" 503]
    by (simp add: visits_each_once_rev lit)
qed

text \<open>
  C8. When the value of a top-level key \<open>K\<close> (the last one, if the key is repeated) is a
  JSON array of strings, \<^verbatim>\<open>Fields[K]\<close> is the sequence of those strings, in the order of the
  array.
\<close>

theorem array_of_strings:
  assumes "visits_each_once ord"
    and "map_of (rev kvs) K = Some (JArray (map JString ss))"
  shows "Fields (parseErrorResponse fmtG ord N (Some (JObject kvs))) K = Some ss"
proof -
  from assms(2) have "map_of (Unmarshal_raw (Some (JObject kvs))) K = Some (ASlice (map AString ss))"
    by (simp add: map_of_Unmarshal_raw comp_def)
  moreover have "map (fmt_v fmtG) (map AString ss) = ss"
    by (induction ss) simp_all
  ultimately show ?thesis
    using assms(1) by (simp add: parseErrorResponse_fields Fields_merged strings_of_def)
qed

theorem array_of_strings_witness:
  "visits_each_once rev \<and>
   map_of (rev [(''errors'', JArray [JString ''a'', JString ''b''])]) ''errors'' =
     Some (JArray (map JString [''a'', ''b''])) \<and>
   Fields (parseErrorResponse (\<lambda>lit. lit) rev 400
     (Some (JObject [(''errors'', JArray [JString ''a'', JString ''b''])]))) ''errors'' = Some [''a'', ''b'']"
  using array_of_strings [of rev "[(''errors'', JArray [JString ''a'', JString ''b''])]" "''errors''"
      "[''a'', ''b'']" "\<lambda>lit. lit" 400]
  by (simp add: visits_each_once_rev)

subsection \<open>The request executor\<close>

lemma Request_not_prepared:
  "Request_prepare lib method url body = Inl err \<Longrightarrow>
   Request fmtG ord lib c method url auth body has_result = (Some err, [])"
  by (simp add: Request_def)

lemma Request_prepare_error:
  assumes "Request_prepare lib method url body = Inl err"
  shows "\<exists>m cause. err = RequestError m (Some cause) ''preparing request parameters'' \<or>
                   err = RequestError m (Some cause) ''preparing request body'' \<or>
                   err = RequestError m (Some cause) ''creating request''"
proof -
  let ?u = "(if method = ''GET''
            then (case body of
                    None \<Rightarrow> Inr url
                  | Some b \<Rightarrow>
                      (case StructToURLParams lib b of
                         Inl err \<Rightarrow> Inl err
                       | Inr urlParams \<Rightarrow> Inr (url @ ''?'' @ urlParams)))
            else Inr url)"
  show ?thesis
  proof (cases ?u)
    case (Inl e)
    with assms show ?thesis by (auto simp: Request_prepare_def)
  next
    case u: (Inr url')
    let ?b = "(if method = ''POST''
                 then (case body of None \<Rightarrow> Inr [] | Some b \<Rightarrow> Marshal lib b)
                 else Inr [])"
    show ?thesis
    proof (cases ?b)
      case (Inl e)
      with assms u show ?thesis by (auto simp: Request_prepare_def)
    next
      case b: (Inr reqBody)
      show ?thesis
      proof (cases "NewRequest lib method url' reqBody")
        case (Inl e)
        with assms u b show ?thesis by (auto simp: Request_prepare_def)
      next
        case (Inr req)
        with assms u b show ?thesis by (auto simp: Request_prepare_def)
      qed
    qed
  qed
qed

lemma Request_not_authenticated:
  "Request_prepare lib method url body = Inr req \<Longrightarrow> ApiKey c = [] \<Longrightarrow>
   Request fmtG ord lib c method url True body has_result =
     (Some (GoWallexError ''authentication validation failed''
              (Some (GoWallexError ''API Key is empty'' None))), [])"
  by (simp add: Request_def assertAuth_def)

text \<open>The request as it reaches the transport.\<close>

lemma Request_sent:
  assumes "Request_prepare lib method url body = Inr req" and "auth \<longrightarrow> ApiKey c \<noteq> []"
  shows "Request fmtG ord lib c method url auth body has_result =
     (case HttpClient c (if auth then req\<lparr>Header := store ''X-API-Key'' (ApiKey c) (Header req)\<rparr>
                         else req) of
        Inl err \<Rightarrow>
          Some (RequestError ''failed to send request'' (Some err) ''sending request'')
      | Inr resp \<Rightarrow>
          (case resp_Body resp of
             Inl err \<Rightarrow>
               Some (RequestError ''failed to read response body'' (Some err) ''reading response'')
           | Inr respBody \<Rightarrow>
               if resp_StatusCode resp < 200 \<or> resp_StatusCode resp \<ge> 300
               then Some (APIErr (parseErrorResponse fmtG ord (resp_StatusCode resp) respBody))
               else if has_result
               then (case Unmarshal_result lib respBody of
                       Some err \<Rightarrow>
                         Some (RequestError ''failed to unmarshal response'' (Some err)
                                 ''parsing response'')
                     | None \<Rightarrow> None)
               else None),
      [if auth then req\<lparr>Header := store ''X-API-Key'' (ApiKey c) (Header req)\<rparr> else req])"
proof -
  from assms(2) have "(if auth then assertAuth c else None) = None"
    by (simp add: assertAuth_def)
  with assms(1) show ?thesis
    by (simp add: Request_def Let_def split: sum.split option.split)
qed

text \<open>
  C4. When the transport answers a request with a response whose body can be read and whose
  status code is outside 200..299, \<^verbatim>\<open>Request\<close> returns the \<^verbatim>\<open>APIError\<close> that
  \<^verbatim>\<open>parseErrorResponse\<close> makes of the status code and the body. Its \<^verbatim>\<open>StatusCode\<close> is the
  status code of the response, and it is no \<^verbatim>\<open>RequestError\<close>. For the body
  \<^verbatim>\<open>{"message":"invalid symbol"}\<close> its \<^verbatim>\<open>Message\<close> is \<^verbatim>\<open>invalid symbol\<close>.
\<close>

theorem non_success_status:
  assumes "snd (Request fmtG ord lib c method url auth body has_result) = [req]"
    and "HttpClient c req = Inr resp"
    and "resp_Body resp = Inr respBody"
    and "resp_StatusCode resp < 200 \<or> 300 \<le> resp_StatusCode resp"
  shows "fst (Request fmtG ord lib c method url auth body has_result) =
           Some (APIErr (parseErrorResponse fmtG ord (resp_StatusCode resp) respBody)) \<and>
         StatusCode (parseErrorResponse fmtG ord (resp_StatusCode resp) respBody) =
           resp_StatusCode resp \<and>
         \<not> is_RequestError (APIErr (parseErrorResponse fmtG ord (resp_StatusCode resp) respBody)) \<and>
         Message (parseErrorResponse fmtG ord (resp_StatusCode resp)
                    (Some (JObject [(''message'', JString ''invalid symbol'')]))) = ''invalid symbol''"
proof -
  let ?R = "Request fmtG ord lib c method url auth body has_result"
  have "base_Message (Unmarshal_base (Some (JObject [(''message'', JString ''invalid symbol'')]))) =
      ''invalid symbol''"
    by (simp add: Unmarshal_base_def set_field_def upper_def zero_ErrorResponse_def)
  then have msg: "Message (parseErrorResponse fmtG ord (resp_StatusCode resp)
      (Some (JObject [(''message'', JString ''invalid symbol'')]))) = ''invalid symbol''"
    by (simp add: parseErrorResponse_fields Message_merged_base)
  have "fst ?R = Some (APIErr (parseErrorResponse fmtG ord (resp_StatusCode resp) respBody))"
  proof (cases "Request_prepare lib method url body")
    case (Inl err)
    then have "snd ?R = []" by (simp add: Request_not_prepared)
    with assms(1) show ?thesis by simp
  next
    case prepared: (Inr req0)
    show ?thesis
    proof (cases "auth \<and> ApiKey c = []")
      case True
      with prepared have "snd ?R = []" by (simp add: Request_not_authenticated)
      with assms(1) show ?thesis by simp
    next
      case False
      then have key: "auth \<longrightarrow> ApiKey c \<noteq> []" by simp
      note sent = Request_sent [OF prepared key, of fmtG ord has_result]
      from sent assms(1) have
        "req = (if auth then req0\<lparr>Header := store ''X-API-Key'' (ApiKey c) (Header req0)\<rparr> else req0)"
        by simp
      with sent assms(2,3,4) show ?thesis by simp
    qed
  qed
  with msg show ?thesis
    by (simp add: parseErrorResponse_fields is_RequestError_def)
qed

theorem non_success_status_witness:
  "snd (Request (\<lambda>lit. lit) rev example_library
          (example_client [] (Inr \<lparr>resp_StatusCode = 400,
             resp_Body = Inr (Some (JObject [(''message'', JString ''invalid symbol'')]))\<rparr>))
          ''GET'' ''https://api.wallex.ir/v1/depth?symbol=BTCUSDD'' False None True) =
     [\<lparr>Method = ''GET'', URL = ''https://api.wallex.ir/v1/depth?symbol=BTCUSDD'', Body = [],
       Header = [(''Content-Type'', ''application/json'')]\<rparr>] \<and>
   fst (Request (\<lambda>lit. lit) rev example_library
          (example_client [] (Inr \<lparr>resp_StatusCode = 400,
             resp_Body = Inr (Some (JObject [(''message'', JString ''invalid symbol'')]))\<rparr>))
          ''GET'' ''https://api.wallex.ir/v1/depth?symbol=BTCUSDD'' False None True) =
     Some (APIErr (parseErrorResponse (\<lambda>lit. lit) rev 400
                     (Some (JObject [(''message'', JString ''invalid symbol'')])))) \<and>
   StatusCode (parseErrorResponse (\<lambda>lit. lit) rev 400
                 (Some (JObject [(''message'', JString ''invalid symbol'')]))) = 400 \<and>
   Message (parseErrorResponse (\<lambda>lit. lit) rev 400
              (Some (JObject [(''message'', JString ''invalid symbol'')]))) = ''invalid symbol''"
proof -
  let ?resp = "\<lparr>resp_StatusCode = 400,
             resp_Body = Inr (Some (JObject [(''message'', JString ''invalid symbol'')]))\<rparr>"
  let ?req = "\<lparr>Method = ''GET'', URL = ''https://api.wallex.ir/v1/depth?symbol=BTCUSDD'', Body = [],
       Header = [(''Content-Type'', ''application/json'')]\<rparr>"
  have sent: "snd (Request (\<lambda>lit. lit) rev example_library (example_client [] (Inr ?resp))
          ''GET'' ''https://api.wallex.ir/v1/depth?symbol=BTCUSDD'' False None True) = [?req]"
    by (simp add: Request_def Request_prepare_def example_library_def example_client_def)
  have answer: "HttpClient (example_client [] (Inr ?resp)) ?req = Inr ?resp"
    by (simp add: example_client_def)
  show ?thesis
    using non_success_status [OF sent answer, of "Some (JObject [(''message'', JString ''invalid symbol'')])"]
      sent
    by simp
qed

text \<open>
  C5. With the auth flag set and an empty \<^verbatim>\<open>ApiKey\<close>, \<^verbatim>\<open>Request\<close> hands nothing to the
  transport; and when the parameters, the body and the request object were prepared without
  error, it returns the \<^verbatim>\<open>GoWallexError\<close> of the failed authentication check, which is
  neither a \<^verbatim>\<open>RequestError\<close> nor an \<^verbatim>\<open>APIError\<close>.
\<close>

theorem empty_api_key:
  assumes "ApiKey c = []"
  shows "snd (Request fmtG ord lib c method url True body has_result) = [] \<and>
         (\<forall>req. Request_prepare lib method url body = Inr req \<longrightarrow>
            Request fmtG ord lib c method url True body has_result =
              (Some (GoWallexError ''authentication validation failed''
                       (Some (GoWallexError ''API Key is empty'' None))), [])) \<and>
         \<not> is_RequestError (GoWallexError ''authentication validation failed''
                              (Some (GoWallexError ''API Key is empty'' None))) \<and>
         \<not> is_APIError (GoWallexError ''authentication validation failed''
                          (Some (GoWallexError ''API Key is empty'' None)))"
proof (cases "Request_prepare lib method url body")
  case (Inl err)
  then show ?thesis
    by (simp add: Request_not_prepared is_RequestError_def is_APIError_def)
next
  case (Inr req)
  with assms show ?thesis
    by (simp add: Request_not_authenticated is_RequestError_def is_APIError_def)
qed

theorem empty_api_key_witness:
  "ApiKey (example_client [] (Inl (LibraryError ''never called''))) = [] \<and>
   Request_prepare example_library ''POST'' ''https://api.wallex.ir/v1/account/orders'' (Some Empty_struct) =
     Inr \<lparr>Method = ''POST'', URL = ''https://api.wallex.ir/v1/account/orders'', Body = ''{}'',
          Header = [(''Content-Type'', ''application/json'')]\<rparr> \<and>
   Request (\<lambda>lit. lit) rev example_library (example_client [] (Inl (LibraryError ''never called'')))
     ''POST'' ''https://api.wallex.ir/v1/account/orders'' True (Some Empty_struct) True =
     (Some (GoWallexError ''authentication validation failed''
              (Some (GoWallexError ''API Key is empty'' None))), [])"
proof -
  have key: "ApiKey (example_client [] (Inl (LibraryError ''never called''))) = []"
    by (simp add: example_client_def)
  have prep: "Request_prepare example_library ''POST'' ''https://api.wallex.ir/v1/account/orders''
      (Some Empty_struct) =
     Inr \<lparr>Method = ''POST'', URL = ''https://api.wallex.ir/v1/account/orders'', Body = ''{}'',
          Header = [(''Content-Type'', ''application/json'')]\<rparr>"
    by (simp add: Request_prepare_def example_library_def)
  from empty_api_key [OF key, of "\<lambda>lit. lit" rev example_library "''POST''"
      "''https://api.wallex.ir/v1/account/orders''" "Some Empty_struct" True] prep key
  show ?thesis by simp
qed

text \<open>
  C9, as the code has it. Every \<^verbatim>\<open>RequestError\<close> that \<^verbatim>\<open>Request\<close> returns carries one
  stage label out of \<^verbatim>\<open>preparing request parameters\<close>, \<^verbatim>\<open>preparing request body\<close>,
  \<^verbatim>\<open>creating request\<close>, \<^verbatim>\<open>sending request\<close>, \<^verbatim>\<open>reading response\<close> and
  \<^verbatim>\<open>parsing response\<close>, and an underlying cause that is not \<^verbatim>\<open>nil\<close>.
\<close>

theorem request_error_stage:
  assumes "fst (Request fmtG ord lib c method url auth body has_result) =
             Some (RequestError m cause operation)"
  shows "operation \<in> {''preparing request parameters'', ''preparing request body'',
                       ''creating request'', ''sending request'', ''reading response'',
                       ''parsing response''} \<and>
         cause \<noteq> None"
proof (cases "Request_prepare lib method url body")
  case (Inl err)
  with assms have "err = RequestError m cause operation"
    by (simp add: Request_not_prepared)
  with Request_prepare_error [OF Inl] show ?thesis by auto
next
  case prepared: (Inr req0)
  show ?thesis
  proof (cases "auth \<and> ApiKey c = []")
    case True
    with prepared assms show ?thesis by (simp add: Request_not_authenticated)
  next
    case False
    then have key: "auth \<longrightarrow> ApiKey c \<noteq> []" by simp
    let ?req = "if auth then req0\<lparr>Header := store ''X-API-Key'' (ApiKey c) (Header req0)\<rparr> else req0"
    note sent = Request_sent [OF prepared key, of fmtG ord has_result]
    show ?thesis
    proof (cases "HttpClient c ?req")
      case (Inl err)
      with sent assms show ?thesis by auto
    next
      case answered: (Inr resp)
      show ?thesis
      proof (cases "resp_Body resp")
        case (Inl err)
        with sent answered assms show ?thesis by auto
      next
        case body_read: (Inr respBody)
        show ?thesis
        proof (cases "Unmarshal_result lib respBody")
          case None
          with sent answered body_read assms show ?thesis
            by (simp split: if_splits)
        next
          case (Some err)
          with sent answered body_read
          have "fst (Request fmtG ord lib c method url auth body has_result) =
            (if resp_StatusCode resp < 200 \<or> resp_StatusCode resp \<ge> 300
             then Some (APIErr (parseErrorResponse fmtG ord (resp_StatusCode resp) respBody))
             else if has_result
             then Some (RequestError ''failed to unmarshal response'' (Some err) ''parsing response'')
             else None)"
            by simp
          with assms show ?thesis
            by (auto split: if_splits)
        qed
      qed
    qed
  qed
qed

theorem request_error_stage_witness:
  "fst (Request (\<lambda>lit. lit) rev example_library
          (example_client ''key'' (Inl (LibraryError ''connection refused'')))
          ''GET'' ''https://api.wallex.ir/v1/account/balances'' True None True) =
     Some (RequestError ''failed to send request'' (Some (LibraryError ''connection refused''))
             ''sending request'') \<and>
   ''sending request'' \<in> {''preparing request parameters'', ''preparing request body'',
                       ''creating request'', ''sending request'', ''reading response'',
                       ''parsing response''}"
proof -
  have r: "fst (Request (\<lambda>lit. lit) rev example_library
          (example_client ''key'' (Inl (LibraryError ''connection refused'')))
          ''GET'' ''https://api.wallex.ir/v1/account/balances'' True None True) =
     Some (RequestError ''failed to send request'' (Some (LibraryError ''connection refused''))
             ''sending request'')"
    by (simp add: Request_def Request_prepare_def example_library_def example_client_def
        assertAuth_def)
  from request_error_stage [OF r] r show ?thesis by simp
qed

text \<open>
  C9 as stated fails on the labels: a \<^verbatim>\<open>POST\<close> whose body \<^verbatim>\<open>json.Marshal\<close> rejects returns
  a \<^verbatim>\<open>RequestError\<close> with the label \<^verbatim>\<open>preparing request body\<close>, which is not among the six
  labels of the claim.
\<close>

theorem request_error_stage_counterexample:
  "fst (Request (\<lambda>lit. lit) rev example_library
          (example_client ''key'' (Inl (LibraryError ''connection refused'')))
          ''POST'' ''https://api.wallex.ir/v1/account/orders'' False (Some NaN) False) =
     Some (RequestError ''failed to marshal request body''
             (Some (LibraryError ''json: unsupported value: NaN'')) ''preparing request body'') \<and>
   ''preparing request body'' \<notin> {''preparing parameters'', ''preparing body'', ''creating request'',
                                   ''sending request'', ''reading response'', ''parsing response''}"
  by (simp add: Request_def Request_prepare_def example_library_def)

end
